theory Spec2Isabelle
  imports Complex_Main
begin

section \<open>JavaScript values\<close>

text \<open>
  The component of \<^verbatim>\<open>src/App.js\<close> handles values that come out of a JSON response
  body, out of a rejected promise, and out of its own state cells. They are untyped, so
  the model carries them as JSON-shaped values: an object is an association list of its
  own properties (the first binding of a name is the one that is read).
\<close>

datatype jsval =
    JUndefined
  | JNull
  | JBool bool
  | JNum real
  | JStr string
  | JArr "jsval list"
  | JObj "(string \<times> jsval) list"

text \<open>JavaScript's ToBoolean, which decides \<^verbatim>\<open>!x\<close>, \<^verbatim>\<open>x && y\<close> and \<^verbatim>\<open>x || y\<close>.\<close>

fun truthy :: "jsval \<Rightarrow> bool" where
  "truthy JUndefined = False"
| "truthy JNull = False"
| "truthy (JBool b) = b"
| "truthy (JNum x) = (x \<noteq> 0)"
| "truthy (JStr s) = (s \<noteq> [])"
| "truthy (JArr xs) = True"
| "truthy (JObj fs) = True"

fun nullish :: "jsval \<Rightarrow> bool" where
  "nullish JUndefined = True"
| "nullish JNull = True"
| "nullish v = False"

text \<open>
  A thrown value is a JavaScript value as well. The engine's TypeError is an object
  whose own \<^verbatim>\<open>message\<close> property holds the text; the wording is the engine's (V8's is
  written here), the program only reads the property.
\<close>

definition TypeError :: "string \<Rightarrow> jsval" where
  "TypeError m = JObj [(''message'', JStr m)]"

definition cannot_read :: "jsval \<Rightarrow> string \<Rightarrow> string" where
  "cannot_read v p =
     ''Cannot read properties of '' @ (if v = JNull then ''null'' else ''undefined'') @
     '' (reading '' @ [CHR 0x27] @ p @ [CHR 0x27] @ '')''"

text \<open>
  Reading a property, \<^verbatim>\<open>v.p\<close>: a TypeError is thrown on \<^verbatim>\<open>undefined\<close> and \<^verbatim>\<open>null\<close>
  (\<open>Inl\<close> carries the thrown value), an object yields its own property or
  \<^verbatim>\<open>undefined\<close>, a string and an array have a \<^verbatim>\<open>length\<close>. None of the other property
  names the program reads exists on a primitive or on an array.
\<close>

fun get :: "jsval \<Rightarrow> string \<Rightarrow> jsval + jsval" where
  "get JUndefined p = Inl (TypeError (cannot_read JUndefined p))"
| "get JNull p = Inl (TypeError (cannot_read JNull p))"
| "get (JObj fs) p = Inr (case map_of fs p of Some v \<Rightarrow> v | None \<Rightarrow> JUndefined)"
| "get (JStr s) p = Inr (if p = ''length'' then JNum (real (length s)) else JUndefined)"
| "get (JArr xs) p = Inr (if p = ''length'' then JNum (real (length xs)) else JUndefined)"
| "get (JBool b) p = Inr JUndefined"
| "get (JNum x) p = Inr JUndefined"

text \<open>A chain of property reads \<^verbatim>\<open>v.p1.p2...\<close>, stopping at the first throw.\<close>

fun get_path :: "jsval \<Rightarrow> string list \<Rightarrow> jsval + jsval" where
  "get_path v [] = Inr v"
| "get_path v (p # ps) = (case get v p of Inl e \<Rightarrow> Inl e | Inr w \<Rightarrow> get_path w ps)"

text \<open>
  \<^verbatim>\<open>a && b\<close> and \<^verbatim>\<open>a || b\<close> on computations that may throw: the right operand counts
  only when the left one did not decide.
\<close>

definition js_and :: "jsval + jsval \<Rightarrow> jsval + jsval \<Rightarrow> jsval + jsval" where
  "js_and a b = (case a of Inl e \<Rightarrow> Inl e | Inr v \<Rightarrow> if truthy v then b else Inr v)"

definition js_or :: "jsval + jsval \<Rightarrow> jsval + jsval \<Rightarrow> jsval + jsval" where
  "js_or a b = (case a of Inl e \<Rightarrow> Inl e | Inr v \<Rightarrow> if truthy v then Inr v else b)"

section \<open>The component's state\<close>

text \<open>
  The five \<^verbatim>\<open>useState\<close> cells of \<^verbatim>\<open>App\<close>, with their initial values.
\<close>

record app_state =
  city :: string
  inputCity :: string
  currentWeatherData :: jsval
  forecastData :: jsval
  error :: jsval

definition init_state :: app_state where
  "init_state =
     \<lparr>city = ''London'', inputCity = ''London'', currentWeatherData = JNull,
      forecastData = JArr [], error = JNull\<rparr>"

text \<open>
  What \<^verbatim>\<open>fetchWeatherData\<close> does to the outside, in the order it does it: a call of a
  state setter, or the one call of \<^verbatim>\<open>axios.get\<close>.
\<close>

datatype effect =
    SetError jsval
  | SetCurrentWeatherData jsval
  | SetForecastData jsval
  | AxiosGet string

fun apply_effect :: "app_state \<Rightarrow> effect \<Rightarrow> app_state" where
  "apply_effect st (SetError v) = st\<lparr>error := v\<rparr>"
| "apply_effect st (SetCurrentWeatherData v) = st\<lparr>currentWeatherData := v\<rparr>"
| "apply_effect st (SetForecastData v) = st\<lparr>forecastData := v\<rparr>"
| "apply_effect st (AxiosGet u) = st"

text \<open>
  How the promise of \<^verbatim>\<open>axios.get\<close> settles: it resolves with a response object, it
  rejects with a reason, or it never settles (no timeout is configured).
\<close>

datatype axios_result = Pending | Resolved jsval | Rejected jsval

text \<open>How a call of the async function ends.\<close>

datatype completion = Returned | Threw jsval | Hung

section \<open>fetchWeatherData\<close>

text \<open>
  \<^verbatim>\<open>process.env.REACT_APP_WEATHERAPI_KEY\<close> is a string or \<^verbatim>\<open>undefined\<close>.
\<close>

definition env_val :: "string option \<Rightarrow> jsval" where
  "env_val k = (case k of None \<Rightarrow> JUndefined | Some s \<Rightarrow> JStr s)"

text \<open>A value of that kind inside a template literal.\<close>

definition env_text :: "string option \<Rightarrow> string" where
  "env_text k = (case k of None \<Rightarrow> ''undefined'' | Some s \<Rightarrow> s)"

definition key_missing_message :: string where
  "key_missing_message =
     ''API Key is missing. Please set REACT_APP_WEATHERAPI_KEY in your .env file.''"

definition unknown_error_message :: string where
  "unknown_error_message = ''An unknown error occurred while fetching weather data.''"

text \<open>The template literal of line 53.\<close>

definition URL :: "string option \<Rightarrow> string \<Rightarrow> string" where
  "URL API_KEY selectedCity =
     ''https://api.weatherapi.com/v1/forecast.json?key='' @ env_text API_KEY @
     ''&q='' @ selectedCity @ ''&days=7''"

text \<open>
  The body of the \<^verbatim>\<open>try\<close> after the \<^verbatim>\<open>await\<close>, given the response: the setter calls
  made, and the value thrown if a property read threw.
\<close>

definition try_body :: "jsval \<Rightarrow> effect list \<times> jsval option" where
  "try_body response =
     (case get response ''data'' of
        Inl e \<Rightarrow> ([], Some e)
      | Inr data \<Rightarrow>
          (case get data ''current'' of
             Inl e \<Rightarrow> ([], Some e)
           | Inr cur \<Rightarrow>
               (case get_path data [''forecast'', ''forecastday''] of
                  Inl e \<Rightarrow> ([SetCurrentWeatherData cur], Some e)
                | Inr fd \<Rightarrow> ([SetCurrentWeatherData cur, SetForecastData fd], None))))"

text \<open>The argument of \<^verbatim>\<open>setError\<close> in the \<^verbatim>\<open>catch\<close> (lines 68 to 70).\<close>

definition error_message :: "jsval \<Rightarrow> jsval + jsval" where
  "error_message err =
     js_or
       (js_or
          (js_and
             (js_and
                (js_and (get_path err [''response''])
                        (get_path err [''response'', ''data'']))
                (get_path err [''response'', ''data'', ''error'']))
             (get_path err [''response'', ''data'', ''error'', ''message'']))
          (get_path err [''message'']))
       (Inr (JStr unknown_error_message))"

text \<open>The \<^verbatim>\<open>catch\<close> block; reading \<^verbatim>\<open>err.response\<close> throws when \<^verbatim>\<open>err\<close> is nullish.\<close>

definition catch_block :: "jsval \<Rightarrow> effect list \<times> completion" where
  "catch_block err =
     (case error_message err of
        Inl e \<Rightarrow> ([], Threw e)
      | Inr m \<Rightarrow> ([SetError m, SetCurrentWeatherData JNull, SetForecastData (JArr [])],
                 Returned))"

text \<open>
  \<^verbatim>\<open>fetchWeatherData\<close> (lines 39 to 75). \<open>result\<close> is how the request of this call
  settles; it is looked at only after the request was issued.
\<close>

definition fetchWeatherData ::
    "string option \<Rightarrow> axios_result \<Rightarrow> string \<Rightarrow> effect list \<times> completion" where
  "fetchWeatherData API_KEY result selectedCity =
     (if \<not> truthy (env_val API_KEY) then ([SetError (JStr key_missing_message)], Returned)
      else
        let pre = [SetError JNull, SetCurrentWeatherData JNull, SetForecastData (JArr []),
                   AxiosGet (URL API_KEY selectedCity)]
        in case result of
             Pending \<Rightarrow> (pre, Hung)
           | Rejected err \<Rightarrow> (case catch_block err of (es, c) \<Rightarrow> (pre @ es, c))
           | Resolved response \<Rightarrow>
               (case try_body response of
                  (es, None) \<Rightarrow> (pre @ es, Returned)
                | (es, Some e) \<Rightarrow> (case catch_block e of (es', c) \<Rightarrow> (pre @ es @ es', c))))"

text \<open>
  The state after a call whose setter calls are applied in order with nothing in
  between. The source suspends at the \<^verbatim>\<open>await\<close> of line 56, and nothing cancels a call, so
  this is the state only when no other call runs meanwhile; a schedule of overlapping
  calls is a list of effects of its own, applied with \<open>foldl apply_effect\<close>.
\<close>

definition run_fetch :: "string option \<Rightarrow> axios_result \<Rightarrow> string \<Rightarrow> app_state \<Rightarrow> app_state" where
  "run_fetch API_KEY result selectedCity st =
     foldl apply_effect st (fst (fetchWeatherData API_KEY result selectedCity))"

fun is_request :: "effect \<Rightarrow> bool" where
  "is_request (AxiosGet u) = True"
| "is_request e = False"

section \<open>Input handler and reactive refresh\<close>

text \<open>The form event, as far as \<^verbatim>\<open>handleSubmit\<close> touches it.\<close>

record form_event =
  defaultPrevented :: bool

text \<open>\<^verbatim>\<open>handleSubmit\<close> (lines 83 to 86) and the input's \<^verbatim>\<open>onChange\<close> (line 206).\<close>

definition handleSubmit :: "form_event \<Rightarrow> app_state \<Rightarrow> form_event \<times> app_state" where
  "handleSubmit e st = (e\<lparr>defaultPrevented := True\<rparr>, st\<lparr>city := inputCity st\<rparr>)"

definition onChange :: "string \<Rightarrow> app_state \<Rightarrow> app_state" where
  "onChange v st = st\<lparr>inputCity := v\<rparr>"

text \<open>
  The hook of lines 78 to 80, \<^verbatim>\<open>useEffect(() => fetchWeatherData(city), [city, API_KEY])\<close>.
  React runs the effect after the first render (no earlier dependencies, \<open>None\<close>) and
  after a later render when a dependency is not the same value as at the render before.
  The result is the state after the effect and the arguments of the calls of
  \<^verbatim>\<open>fetchWeatherData\<close> it made.
\<close>

definition deps_changed :: "(string \<times> string option) option \<Rightarrow> string \<times> string option \<Rightarrow> bool" where
  "deps_changed prev cur = (case prev of None \<Rightarrow> True | Some p \<Rightarrow> p \<noteq> cur)"

definition useEffect ::
    "string option \<Rightarrow> axios_result \<Rightarrow> (string \<times> string option) option \<Rightarrow> app_state \<Rightarrow>
     app_state \<times> string list" where
  "useEffect API_KEY result prev st =
     (if deps_changed prev (city st, API_KEY)
      then (run_fetch API_KEY result (city st) st, [city st])
      else (st, []))"

text \<open>The first render and its effect.\<close>

definition mount :: "string option \<Rightarrow> axios_result \<Rightarrow> app_state \<times> string list" where
  "mount API_KEY result = useEffect API_KEY result None init_state"

text \<open>
  Submitting the form in state \<open>st\<close>: the handler runs, the component renders again, and
  the hook compares the dependencies with those of the render of \<open>st\<close>.
\<close>

definition submit ::
    "string option \<Rightarrow> axios_result \<Rightarrow> form_event \<Rightarrow> app_state \<Rightarrow> app_state \<times> string list" where
  "submit API_KEY result e st =
     (case handleSubmit e st of
        (e', st') \<Rightarrow> useEffect API_KEY result (Some (city st, API_KEY)) st')"

section \<open>Chart projection\<close>

text \<open>\<^verbatim>\<open>xs.map(f)\<close> over the elements in order; the first throw of \<open>f\<close> ends it.\<close>

fun map_throw :: "(jsval \<Rightarrow> jsval + jsval) \<Rightarrow> jsval list \<Rightarrow> jsval + jsval list" where
  "map_throw f [] = Inr []"
| "map_throw f (x # xs) =
     (case f x of
        Inl e \<Rightarrow> Inl e
      | Inr y \<Rightarrow> (case map_throw f xs of Inl e \<Rightarrow> Inl e | Inr ys \<Rightarrow> Inr (y # ys)))"

text \<open>
  \<^verbatim>\<open>forecastData.map(f)\<close>: only an array has the method; on \<^verbatim>\<open>undefined\<close> and \<^verbatim>\<open>null\<close>
  the read of \<^verbatim>\<open>map\<close> throws, on any other value the call does.
\<close>

definition js_map :: "jsval \<Rightarrow> (jsval \<Rightarrow> jsval + jsval) \<Rightarrow> jsval + jsval" where
  "js_map v f =
     (case v of
        JArr xs \<Rightarrow> (case map_throw f xs of Inl e \<Rightarrow> Inl e | Inr ys \<Rightarrow> Inr (JArr ys))
      | _ \<Rightarrow>
          if nullish v then Inl (TypeError (cannot_read v ''map''))
          else Inl (TypeError ''forecastData.map is not a function''))"

text \<open>
  One entry of \<^verbatim>\<open>datasets\<close>: the three literals of lines 92 to 127 differ in the label,
  the data and the colour. The degree sign is the code unit 0xB0.
\<close>

definition dataset :: "string \<Rightarrow> jsval \<Rightarrow> string \<Rightarrow> string \<Rightarrow> jsval" where
  "dataset name points rgb rgba =
     JObj [(''label'', JStr (name @ '' Temperature ('' @ [CHR 0xB0] @ ''F)'')),
           (''data'', points),
           (''fill'', JBool False),
           (''borderColor'', JStr rgb),
           (''backgroundColor'', JStr rgba),
           (''tension'', JNum (4 / 10)),
           (''pointRadius'', JNum 5),
           (''pointBackgroundColor'', JStr rgb),
           (''pointBorderColor'', JStr ''#fff''),
           (''pointHoverRadius'', JNum 7)]"

text \<open>\<^verbatim>\<open>chartData\<close> (lines 89 to 129), evaluated in source order.\<close>

definition chartData :: "jsval \<Rightarrow> jsval + jsval" where
  "chartData fd =
     (case js_map fd (\<lambda>day. get day ''date'') of
        Inl e \<Rightarrow> Inl e
      | Inr labels \<Rightarrow>
     (case js_map fd (\<lambda>day. get_path day [''day'', ''avgtemp_f'']) of
        Inl e \<Rightarrow> Inl e
      | Inr avg \<Rightarrow>
     (case js_map fd (\<lambda>day. get_path day [''day'', ''maxtemp_f'']) of
        Inl e \<Rightarrow> Inl e
      | Inr mx \<Rightarrow>
     (case js_map fd (\<lambda>day. get_path day [''day'', ''mintemp_f'']) of
        Inl e \<Rightarrow> Inl e
      | Inr mn \<Rightarrow>
          Inr (JObj [(''labels'', labels),
                     (''datasets'',
                      JArr [dataset ''Avg.'' avg ''rgb(75, 192, 192)'' ''rgba(75, 192, 192, 0.5)'',
                            dataset ''Max'' mx ''rgb(255, 99, 132)'' ''rgba(255, 99, 132, 0.5)'',
                            dataset ''Min'' mn ''rgb(54, 162, 235)'' ''rgba(54, 162, 235, 0.5)''])])))))"

section \<open>Presentation\<close>

text \<open>
  What \<^verbatim>\<open>App\<close> returns (lines 199 to 237), as far as it depends on the state: the three
  guarded parts. A guard \<^verbatim>\<open>g && <element>\<close> yields the element when \<open>g\<close> is truthy and
  the value of \<open>g\<close> otherwise.
\<close>

datatype 'a slot = Rendered 'a | Skipped jsval


record weather_card =
  heading :: string
  temperature :: jsval
  condition_text :: jsval
  humidity :: jsval
  wind_mph :: jsval
  wind_dir :: jsval
  icon_src :: jsval
  icon_alt :: jsval

record line_chart =
  chart_data :: jsval
  chart_title :: string

record view =
  input_value :: string
  error_banner :: "jsval slot"
  weather :: "weather_card slot"
  chart :: "line_chart slot"




section \<open>The statements of the specification\<close>

text \<open>
  The specification speaks of an error that carries a structured API error object with
  a message, and of its transport-level message. \<open>own_field\<close> is the property of an
  object when it has it; \<open>structured_message\<close> follows
  \<^verbatim>\<open>{response: {data: {error: {message: m}}}}\<close>.
\<close>

fun own_field :: "jsval \<Rightarrow> string \<Rightarrow> jsval option" where
  "own_field (JObj fs) p = map_of fs p"
| "own_field v p = None"

text \<open>What \<^verbatim>\<open>v.p\<close> yields on a value that is not nullish, for a name other than \<^verbatim>\<open>length\<close>.\<close>

definition field :: "jsval \<Rightarrow> string \<Rightarrow> jsval" where
  "field v p = (case own_field v p of Some w \<Rightarrow> w | None \<Rightarrow> JUndefined)"

definition structured_message :: "jsval \<Rightarrow> jsval option" where
  "structured_message err =
     (case own_field err ''response'' of
        None \<Rightarrow> None
      | Some r \<Rightarrow>
          (case own_field r ''data'' of
             None \<Rightarrow> None
           | Some d \<Rightarrow>
               (case own_field d ''error'' of
                  None \<Rightarrow> None
                | Some e \<Rightarrow> own_field e ''message'')))"

text \<open>
  An error carries a message when the property is there and JavaScript does not take
  its value for false (as the empty string is).
\<close>

definition present :: "jsval option \<Rightarrow> bool" where
  "present x = (case x of None \<Rightarrow> False | Some m \<Rightarrow> truthy m)"

text \<open>
  The precedence as the specification words it: the structured message when there is
  one, else the transport message when there is one, else the fixed text.
\<close>

definition spec_error_message :: "jsval \<Rightarrow> jsval" where
  "spec_error_message err =
     (if present (structured_message err) then the (structured_message err)
      else if present (own_field err ''message'') then the (own_field err ''message'')
      else JStr ''An unknown error occurred while fetching weather data.'')"

text \<open>
  Overlapping calls. A call runs up to its request and is suspended; what it does once
  the request has settled comes later, and the effects of other calls may come in
  between.
\<close>

definition until_await :: "effect list \<Rightarrow> effect list" where
  "until_await es =
     takeWhile (\<lambda>e. \<not> is_request e) es @ take 1 (dropWhile (\<lambda>e. \<not> is_request e) es)"

definition after_await :: "effect list \<Rightarrow> effect list" where
  "after_await es = drop 1 (dropWhile (\<lambda>e. \<not> is_request e) es)"

text \<open>
  Clearing first: the first three effects of a call reset the error, the current
  conditions and the forecast.
\<close>

definition clears_first :: "effect list \<Rightarrow> bool" where
  "clears_first es =
     (take 3 es = [SetError JNull, SetCurrentWeatherData JNull, SetForecastData (JArr [])])"

text \<open>
  The specification's URL encoding of the city (what \<^verbatim>\<open>encodeURIComponent\<close> does to
  a string of bytes): a letter, a digit and the marks \<^verbatim>\<open>-_.!~*'()\<close> stand for
  themselves, any other byte is written \<^verbatim>\<open>%XX\<close>.
\<close>

definition unreserved :: "char \<Rightarrow> bool" where
  "unreserved c =
     (c \<in> set (''ABCDEFGHIJKLMNOPQRSTUVWXYZabcdefghijklmnopqrstuvwxyz0123456789-_.!~*()'' @
               [CHR 0x27]))"

definition hex_digit :: "nat \<Rightarrow> char" where
  "hex_digit n = ''0123456789ABCDEF'' ! (n mod 16)"

definition percent_encode :: "char \<Rightarrow> string" where
  "percent_encode c =
     (if unreserved c then [c]
      else [CHR ''%'', hex_digit (of_char c div 16), hex_digit (of_char c)])"

definition spec_encode_city :: "string \<Rightarrow> string" where
  "spec_encode_city s = concat (map percent_encode s)"

definition spec_URL :: "string option \<Rightarrow> string \<Rightarrow> string" where
  "spec_URL API_KEY selectedCity =
     ''https://api.weatherapi.com/v1/forecast.json?key='' @ env_text API_KEY @
     ''&q='' @ spec_encode_city selectedCity @ ''&days=7''"

text \<open>
  What a server gets of a URL: the part before the first \<^verbatim>\<open>#\<close> (the fragment is not
  sent), and in it, after the \<^verbatim>\<open>?\<close>, the parameters \<^verbatim>\<open>name=value\<close> separated by \<^verbatim>\<open>&\<close>.
\<close>

definition without_fragment :: "string \<Rightarrow> string" where
  "without_fragment url = takeWhile (\<lambda>c. c \<noteq> CHR ''#'') url"

fun split_on :: "char \<Rightarrow> string \<Rightarrow> string list" where
  "split_on d [] = [[]]"
| "split_on d (c # cs) =
     (if c = d then [] # split_on d cs
      else (case split_on d cs of [] \<Rightarrow> [[c]] | p # ps \<Rightarrow> (c # p) # ps))"

definition query_params :: "string \<Rightarrow> (string \<times> string) list" where
  "query_params url =
     map (\<lambda>p. (takeWhile (\<lambda>c. c \<noteq> CHR ''='') p, drop 1 (dropWhile (\<lambda>c. c \<noteq> CHR ''='') p)))
       (split_on (CHR ''&'') (drop 1 (dropWhile (\<lambda>c. c \<noteq> CHR ''?'') (without_fragment url))))"

section \<open>Auxiliary facts\<close>

lemma truthy_env_val: "truthy (env_val k) \<longleftrightarrow> (\<exists>s. k = Some s \<and> s \<noteq> [])"
  by (cases k) (simp_all add: env_val_def)

lemma truthy_not_nullish: "truthy v \<Longrightarrow> \<not> nullish v"
  by (cases v) simp_all

lemma get_field: "\<not> nullish v \<Longrightarrow> p \<noteq> ''length'' \<Longrightarrow> get v p = Inr (field v p)"
  by (cases v) (simp_all add: field_def)

lemma own_field_Some_truthy: "own_field v p = Some w \<Longrightarrow> truthy v"
  by (cases v) simp_all

lemma get_Inl: "get v p = Inl e \<Longrightarrow> e = TypeError (cannot_read v p) \<and> nullish v"
  by (cases v) (auto split: if_splits)

lemma cannot_read_nonempty: "cannot_read v p \<noteq> []"
  by (simp add: cannot_read_def)

lemma error_message_spec:
  assumes "\<not> nullish err"
  shows "error_message err = Inr (spec_error_message err)"
proof -
  have g: "\<And>v p. truthy v \<Longrightarrow> p \<noteq> ''length'' \<Longrightarrow> get v p = Inr (field v p)"
    using get_field truthy_not_nullish by blast
  show ?thesis using assms
    apply (simp add: error_message_def get_field js_and_def js_or_def g)
    apply (auto simp add: spec_error_message_def present_def structured_message_def field_def
                unknown_error_message_def split: option.splits dest: own_field_Some_truthy)
    done
qed

lemma error_message_truthy: "error_message err = Inr m \<Longrightarrow> truthy m"
  by (auto simp add: error_message_def js_or_def unknown_error_message_def
           split: sum.splits if_splits)

lemma spec_error_message_TypeError:
  "m \<noteq> [] \<Longrightarrow> spec_error_message (TypeError m) = JStr m"
  by (simp add: spec_error_message_def present_def structured_message_def TypeError_def)

lemma catch_block_spec:
  "\<not> nullish err \<Longrightarrow>
     catch_block err =
       ([SetError (spec_error_message err), SetCurrentWeatherData JNull,
         SetForecastData (JArr [])], Returned)"
  by (simp add: catch_block_def error_message_spec)

lemma catch_block_cases:
  "catch_block e = (es, c) \<Longrightarrow>
     (es = [] \<and> c \<noteq> Returned) \<or>
     (\<exists>m. truthy m \<and> c = Returned \<and>
          es = [SetError m, SetCurrentWeatherData JNull, SetForecastData (JArr [])])"
  by (auto simp add: catch_block_def split: sum.splits dest: error_message_truthy)

lemma try_body_cases:
  "try_body response = (es, t) \<Longrightarrow>
     (t = None \<and> (\<exists>cur fd. es = [SetCurrentWeatherData cur, SetForecastData fd])) \<or>
     (t \<noteq> None \<and> (es = [] \<or> (\<exists>cur. es = [SetCurrentWeatherData cur])))"
  by (auto simp add: try_body_def split: sum.splits)

lemma try_body_thrown: "try_body response = (es, Some e) \<Longrightarrow> \<not> nullish e"
  by (auto simp add: try_body_def TypeError_def split: sum.splits dest!: get_Inl)

lemma fetch_prefix:
  assumes k: "truthy (env_val k)"
  shows "\<exists>rest. fst (fetchWeatherData k r c) =
       [SetError JNull, SetCurrentWeatherData JNull, SetForecastData (JArr []),
        AxiosGet (URL k c)] @ rest \<and> filter is_request rest = []"
proof (cases r)
  case Pending
  then show ?thesis using k by (simp add: fetchWeatherData_def)
next
  case (Resolved response)
  obtain es t where tb: "try_body response = (es, t)" by (cases "try_body response")
  from try_body_cases [OF tb] have es: "filter is_request es = []" by auto
  show ?thesis
  proof (cases t)
    case None
    then show ?thesis using k Resolved tb es by (simp add: fetchWeatherData_def)
  next
    case (Some e)
    obtain es' c' where cb: "catch_block e = (es', c')" by (cases "catch_block e")
    from catch_block_cases [OF cb] have "filter is_request es' = []" by auto
    then show ?thesis using k Resolved tb es Some cb by (simp add: fetchWeatherData_def)
  qed
next
  case (Rejected err)
  obtain es' c' where cb: "catch_block err = (es', c')" by (cases "catch_block err")
  from catch_block_cases [OF cb] have "filter is_request es' = []" by auto
  then show ?thesis using k Rejected cb by (simp add: fetchWeatherData_def)
qed


lemma city_foldl_apply_effect: "city (foldl apply_effect st es) = city st"
proof (induction es arbitrary: st)
  case Nil
  show ?case by simp
next
  case (Cons x xs)
  have "city (apply_effect st x) = city st" by (cases x) simp_all
  with Cons show ?case by simp
qed

lemma city_run_fetch: "city (run_fetch k r c st) = city st"
  by (simp add: run_fetch_def city_foldl_apply_effect)

lemma catch_block_TypeError:
  "m \<noteq> [] \<Longrightarrow>
     catch_block (TypeError m) =
       ([SetError (JStr m), SetCurrentWeatherData JNull, SetForecastData (JArr [])], Returned)"
proof -
  assume m: "m \<noteq> []"
  have "\<not> nullish (TypeError m)" by (simp add: TypeError_def)
  from catch_block_spec [OF this] show ?thesis
    by (simp add: spec_error_message_TypeError m)
qed

lemma get_nullish: "nullish v \<Longrightarrow> get v p = Inl (TypeError (cannot_read v p))"
  by (cases v) simp_all

lemma map_throw_total:
  "\<forall>x \<in> set xs. f x = Inr (g x) \<Longrightarrow> map_throw f xs = Inr (map g xs)"
  by (induction xs) simp_all

lemma js_map_total:
  "\<forall>x \<in> set xs. f x = Inr (g x) \<Longrightarrow> js_map (JArr xs) f = Inr (JArr (map g xs))"
  using map_throw_total [of xs f g] by (simp add: js_map_def)


lemma await_split: "until_await es @ after_await es = es"
proof -
  have "take 1 (dropWhile P es) @ drop 1 (dropWhile P es) = dropWhile P es" for P
    by simp
  then show ?thesis
    by (simp add: until_await_def after_await_def del: append_take_drop_id)
qed

section \<open>Properties\<close>

text \<open>
  C1 (as amended). With a credential configured, for every city, every prior state and
  every way the request settles, the first three effects of \<^verbatim>\<open>fetchWeatherData\<close> clear
  the error, the current conditions and the forecast; the request is the fourth effect,
  so the clearing precedes it and every result applied afterwards. (Without a
  credential the guard of line 41 returns before the clearing; see the counterexample
  below.)
\<close>

theorem C1_clears_first:
  "truthy (env_val API_KEY) \<Longrightarrow>
     clears_first (fst (fetchWeatherData API_KEY result selectedCity)) \<and>
     take 4 (fst (fetchWeatherData API_KEY result selectedCity)) =
       [SetError JNull, SetCurrentWeatherData JNull, SetForecastData (JArr []),
        AxiosGet (URL API_KEY selectedCity)]"
  using fetch_prefix [of API_KEY result selectedCity]
  by (auto simp add: clears_first_def)

theorem C1_clears_first_witness:
  "truthy (env_val (Some ''K'')) \<and>
   clears_first
     (fst (fetchWeatherData (Some ''K'')
             (Rejected (JObj [(''message'', JStr ''Network Error'')])) ''Paris'')) \<and>
   fst (fetchWeatherData (Some ''K'')
          (Rejected (JObj [(''message'', JStr ''Network Error'')])) ''Paris'') =
     [SetError JNull, SetCurrentWeatherData JNull, SetForecastData (JArr []),
      AxiosGet ''https://api.weatherapi.com/v1/forecast.json?key=K&q=Paris&days=7'',
      SetError (JStr ''Network Error''), SetCurrentWeatherData JNull,
      SetForecastData (JArr [])]"
proof -
  have k: "truthy (env_val (Some ''K''))" by (simp add: env_val_def)
  show ?thesis
    using k C1_clears_first [OF k, of "Rejected (JObj [(''message'', JStr ''Network Error'')])" "''Paris''"]
    by (simp add: fetchWeatherData_def catch_block_def error_message_def js_or_def
                  js_and_def URL_def env_text_def)
qed

text \<open>
  Without a credential the call is the single \<^verbatim>\<open>setError\<close> of line 42: it clears nothing,
  and conditions and forecast that were on display stay as they were.
\<close>

theorem C1_clears_first_counterexample:
  "\<not> clears_first (fst (fetchWeatherData None (Resolved (JObj [])) ''Paris'')) \<and>
   currentWeatherData
     (run_fetch None (Resolved (JObj [])) ''Paris''
        (init_state\<lparr>currentWeatherData := JObj [(''temp_f'', JNum 70)],
                     forecastData := JArr [JObj [(''date'', JStr ''2024-05-01'')]]\<rparr>)) =
     JObj [(''temp_f'', JNum 70)] \<and>
   forecastData
     (run_fetch None (Resolved (JObj [])) ''Paris''
        (init_state\<lparr>currentWeatherData := JObj [(''temp_f'', JNum 70)],
                     forecastData := JArr [JObj [(''date'', JStr ''2024-05-01'')]]\<rparr>)) =
     JArr [JObj [(''date'', JStr ''2024-05-01'')]]"
  by (simp add: fetchWeatherData_def run_fetch_def env_val_def clears_first_def init_state_def)

text \<open>
  C2 (as amended). For every failed fetch whose caught error is not \<^verbatim>\<open>null\<close> or
  \<^verbatim>\<open>undefined\<close> (the request was rejected with \<open>err\<close>, or a property read in the \<^verbatim>\<open>try\<close>
  threw \<open>err\<close>), the call returns and the error state is chosen by this precedence: the
  structured API message when the error carries one, else the error's own (transport)
  message when it has one, else the fixed text
  "An unknown error occurred while fetching weather data.".
\<close>

theorem C2_error_precedence:
  assumes k: "truthy (env_val API_KEY)"
    and n: "\<not> nullish err"
    and r: "result = Rejected err \<or>
            (\<exists>response es. result = Resolved response \<and> try_body response = (es, Some err))"
  shows "snd (fetchWeatherData API_KEY result selectedCity) = Returned \<and>
         error (run_fetch API_KEY result selectedCity st) =
           (if present (structured_message err) then the (structured_message err)
            else if present (own_field err ''message'') then the (own_field err ''message'')
            else JStr ''An unknown error occurred while fetching weather data.'')"
  using k r
  by (auto simp add: fetchWeatherData_def run_fetch_def catch_block_spec [OF n]
                     spec_error_message_def)

theorem C2_error_precedence_witness:
  "error (run_fetch (Some ''K'')
            (Rejected (JObj [(''message'', JStr ''Request failed with status code 401''),
                   (''response'', JObj [(''status'', JNum 401),
                      (''data'', JObj [(''error'', JObj [(''code'', JNum 2006),
                          (''message'', JStr ''API key provided is invalid'')])])])]))
            ''Paris'' init_state) = JStr ''API key provided is invalid'' \<and>
   error (run_fetch (Some ''K'')
            (Rejected (JObj [(''message'', JStr ''Network Error'')]))
            ''Paris'' init_state) = JStr ''Network Error'' \<and>
   error (run_fetch (Some ''K'')
            (Rejected (JObj [(''message'', JStr []),
                             (''response'', JObj [(''data'', JStr [])])]))
            ''Paris'' init_state) =
     JStr ''An unknown error occurred while fetching weather data.''"
proof -
  let ?api = "JObj [(''message'', JStr ''Request failed with status code 401''),
                   (''response'', JObj [(''status'', JNum 401),
                      (''data'', JObj [(''error'', JObj [(''code'', JNum 2006),
                          (''message'', JStr ''API key provided is invalid'')])])])]"
  let ?net = "JObj [(''message'', JStr ''Network Error'')]"
  let ?odd = "JObj [(''message'', JStr []), (''response'', JObj [(''data'', JStr [])])]"
  have k: "truthy (env_val (Some ''K''))" by (simp add: env_val_def)
  have a: "error (run_fetch (Some ''K'') (Rejected ?api) ''Paris'' init_state) =
             JStr ''API key provided is invalid''"
    using C2_error_precedence [OF k, of ?api "Rejected ?api" "''Paris''" init_state]
    by (simp add: present_def structured_message_def)
  have b: "error (run_fetch (Some ''K'') (Rejected ?net) ''Paris'' init_state) =
             JStr ''Network Error''"
    using C2_error_precedence [OF k, of ?net "Rejected ?net" "''Paris''" init_state]
    by (simp add: present_def structured_message_def)
  have c: "error (run_fetch (Some ''K'') (Rejected ?odd) ''Paris'' init_state) =
             JStr ''An unknown error occurred while fetching weather data.''"
    using C2_error_precedence [OF k, of ?odd "Rejected ?odd" "''Paris''" init_state]
    by (simp add: present_def structured_message_def)
  from a b c show ?thesis by blast
qed

text \<open>
  A rejection with \<^verbatim>\<open>null\<close> is no object to read \<^verbatim>\<open>response\<close> from: the \<^verbatim>\<open>catch\<close> block
  itself throws, the call does not return, and no message is set, the fixed text
  neither.
\<close>

theorem C2_error_precedence_counterexample:
  "fetchWeatherData (Some ''K'') (Rejected JNull) ''Paris'' =
     ([SetError JNull, SetCurrentWeatherData JNull, SetForecastData (JArr []),
       AxiosGet ''https://api.weatherapi.com/v1/forecast.json?key=K&q=Paris&days=7''],
      Threw (TypeError (cannot_read JNull ''response''))) \<and>
   error (run_fetch (Some ''K'') (Rejected JNull) ''Paris'' init_state) = JNull \<and>
   error (run_fetch (Some ''K'') (Rejected JNull) ''Paris'' init_state) \<noteq>
     JStr ''An unknown error occurred while fetching weather data.''"
  by (simp add: fetchWeatherData_def run_fetch_def env_val_def URL_def env_text_def
                catch_block_def error_message_def js_or_def js_and_def init_state_def)

text \<open>
  C3. With no credential configured (the variable unset or empty), for every city,
  every prior state and whatever the network would answer, the call only sets the error
  to the fixed configuration message and returns: no request is among its effects.
\<close>

theorem C3_missing_key_no_request:
  "\<not> truthy (env_val API_KEY) \<Longrightarrow>
     fetchWeatherData API_KEY result selectedCity =
       ([SetError (JStr key_missing_message)], Returned) \<and>
     filter is_request (fst (fetchWeatherData API_KEY result selectedCity)) = [] \<and>
     error (run_fetch API_KEY result selectedCity st) = JStr key_missing_message"
  by (simp add: fetchWeatherData_def run_fetch_def)

theorem C3_missing_key_no_request_witness:
  "\<not> truthy (env_val None) \<and>
   fetchWeatherData None (Resolved (JObj [])) ''Paris'' =
     ([SetError (JStr key_missing_message)], Returned) \<and>
   filter is_request (fst (fetchWeatherData None (Resolved (JObj [])) ''Paris'')) = [] \<and>
   error (run_fetch None (Resolved (JObj [])) ''Paris'' init_state) = JStr key_missing_message"
proof -
  have h: "\<not> truthy (env_val None)" by (simp add: env_val_def)
  show ?thesis
    using h C3_missing_key_no_request [OF h, of "Resolved (JObj [])" "''Paris''" init_state]
    by simp
qed




text \<open>
  C5. When the request is rejected with an error whose response body carries
  \<^verbatim>\<open>{"error": {"message": "No matching location found."}}\<close>, the error state is exactly
  that string, the current conditions are \<^verbatim>\<open>null\<close> and the forecast is the empty array,
  whatever was displayed before.
\<close>

theorem C5_no_matching_location:
  assumes k: "truthy (env_val API_KEY)"
    and m: "structured_message err = Some (JStr ''No matching location found.'')"
  shows "error (run_fetch API_KEY (Rejected err) selectedCity st) =
           JStr ''No matching location found.'' \<and>
         currentWeatherData (run_fetch API_KEY (Rejected err) selectedCity st) = JNull \<and>
         forecastData (run_fetch API_KEY (Rejected err) selectedCity st) = JArr []"
proof -
  from m have "\<not> nullish err"
    by (cases err) (simp_all add: structured_message_def)
  moreover from m have "spec_error_message err = JStr ''No matching location found.''"
    by (simp add: spec_error_message_def present_def)
  ultimately show ?thesis using k
    by (simp add: run_fetch_def fetchWeatherData_def catch_block_spec)
qed

theorem C5_no_matching_location_witness:
  "truthy (env_val (Some ''K'')) \<and>
   structured_message
     (JObj [(''message'', JStr ''Request failed with status code 400''),
            (''response'', JObj [(''status'', JNum 400),
               (''data'', JObj [(''error'',
                   JObj [(''message'', JStr ''No matching location found.'')])])])]) =
     Some (JStr ''No matching location found.'') \<and>
   error (run_fetch (Some ''K'')
     (Rejected (JObj [(''message'', JStr ''Request failed with status code 400''),
            (''response'', JObj [(''status'', JNum 400),
               (''data'', JObj [(''error'',
                   JObj [(''message'', JStr ''No matching location found.'')])])])]))
     ''Zzzzz''
     (init_state\<lparr>currentWeatherData := JObj [(''temp_f'', JNum 70)]\<rparr>)) =
     JStr ''No matching location found.'' \<and>
   currentWeatherData (run_fetch (Some ''K'')
     (Rejected (JObj [(''message'', JStr ''Request failed with status code 400''),
            (''response'', JObj [(''status'', JNum 400),
               (''data'', JObj [(''error'',
                   JObj [(''message'', JStr ''No matching location found.'')])])])]))
     ''Zzzzz''
     (init_state\<lparr>currentWeatherData := JObj [(''temp_f'', JNum 70)]\<rparr>)) = JNull"
proof -
  let ?err = "JObj [(''message'', JStr ''Request failed with status code 400''),
            (''response'', JObj [(''status'', JNum 400),
               (''data'', JObj [(''error'',
                   JObj [(''message'', JStr ''No matching location found.'')])])])]"
  have k: "truthy (env_val (Some ''K''))" by (simp add: env_val_def)
  have m: "structured_message ?err = Some (JStr ''No matching location found.'')"
    by (simp add: structured_message_def)
  from C5_no_matching_location [OF k m, of "''Zzzzz''"
        "init_state\<lparr>currentWeatherData := JObj [(''temp_f'', JNum 70)]\<rparr>"] k m
  show ?thesis by blast
qed

text \<open>
  C6. For a forecast series of any length \<open>n\<close> (so for \<open>0 \<le> n \<le> 7\<close>) whose entries
  are daily entries (each one an object with a \<^verbatim>\<open>day\<close> object), \<^verbatim>\<open>chartData\<close> has \<open>n\<close>
  labels, the entries' \<^verbatim>\<open>date\<close> values in the order of the series, and exactly three
  datasets, labelled average, maximum and minimum temperature, whose \<^verbatim>\<open>data\<close> are the
  \<open>n\<close> values of \<^verbatim>\<open>avgtemp_f\<close>, \<^verbatim>\<open>maxtemp_f\<close> and \<^verbatim>\<open>mintemp_f\<close> of the entries in
  that order, each value passed on as it is.
\<close>

theorem C6_chart_projection:
  assumes w: "\<forall>d \<in> set days. \<not> nullish d \<and> \<not> nullish (field d ''day'')"
  shows "\<exists>cd a m n.
           chartData (JArr days) = Inr cd \<and>
           own_field cd ''labels'' = Some (JArr (map (\<lambda>d. field d ''date'') days)) \<and>
           own_field cd ''datasets'' = Some (JArr [a, m, n]) \<and>
           own_field a ''label'' = Some (JStr (''Avg. Temperature ('' @ [CHR 0xB0] @ ''F)'')) \<and>
           own_field m ''label'' = Some (JStr (''Max Temperature ('' @ [CHR 0xB0] @ ''F)'')) \<and>
           own_field n ''label'' = Some (JStr (''Min Temperature ('' @ [CHR 0xB0] @ ''F)'')) \<and>
           own_field a ''data'' =
             Some (JArr (map (\<lambda>d. field (field d ''day'') ''avgtemp_f'') days)) \<and>
           own_field m ''data'' =
             Some (JArr (map (\<lambda>d. field (field d ''day'') ''maxtemp_f'') days)) \<and>
           own_field n ''data'' =
             Some (JArr (map (\<lambda>d. field (field d ''day'') ''mintemp_f'') days)) \<and>
           length (map (\<lambda>d. field d ''date'') days) = length days \<and>
           length (map (\<lambda>d. field (field d ''day'') ''avgtemp_f'') days) = length days \<and>
           length (map (\<lambda>d. field (field d ''day'') ''maxtemp_f'') days) = length days \<and>
           length (map (\<lambda>d. field (field d ''day'') ''mintemp_f'') days) = length days"
proof -
  have l: "js_map (JArr days) (\<lambda>day. get day ''date'') =
             Inr (JArr (map (\<lambda>d. field d ''date'') days))"
    using w by (intro js_map_total) (simp add: get_field)
  have p: "\<And>q. q \<noteq> ''length'' \<Longrightarrow>
             js_map (JArr days) (\<lambda>day. get_path day [''day'', q]) =
             Inr (JArr (map (\<lambda>d. field (field d ''day'') q) days))"
    using w by (intro js_map_total) (simp add: get_field)
  have a: "js_map (JArr days) (\<lambda>day. get_path day [''day'', ''avgtemp_f'']) =
             Inr (JArr (map (\<lambda>d. field (field d ''day'') ''avgtemp_f'') days))"
    by (rule p) simp
  have m: "js_map (JArr days) (\<lambda>day. get_path day [''day'', ''maxtemp_f'']) =
             Inr (JArr (map (\<lambda>d. field (field d ''day'') ''maxtemp_f'') days))"
    by (rule p) simp
  have n: "js_map (JArr days) (\<lambda>day. get_path day [''day'', ''mintemp_f'']) =
             Inr (JArr (map (\<lambda>d. field (field d ''day'') ''mintemp_f'') days))"
    by (rule p) simp
  show ?thesis
    unfolding chartData_def l a m n by (simp add: dataset_def)
qed

theorem C6_chart_projection_witness:
  "\<exists>cd a m n.
     chartData
       (JArr [JObj [(''date'', JStr ''2024-05-01''),
                    (''day'', JObj [(''avgtemp_f'', JNum 61), (''maxtemp_f'', JNum 70),
                                    (''mintemp_f'', JNum 52)])],
              JObj [(''date'', JStr ''2024-05-02''),
                    (''day'', JObj [(''avgtemp_f'', JNum 63), (''maxtemp_f'', JNum 72),
                                    (''mintemp_f'', JNum 54)])]]) = Inr cd \<and>
     own_field cd ''labels'' = Some (JArr [JStr ''2024-05-01'', JStr ''2024-05-02'']) \<and>
     own_field cd ''datasets'' = Some (JArr [a, m, n]) \<and>
     own_field a ''data'' = Some (JArr [JNum 61, JNum 63]) \<and>
     own_field m ''data'' = Some (JArr [JNum 70, JNum 72]) \<and>
     own_field n ''data'' = Some (JArr [JNum 52, JNum 54])"
proof -
  let ?days = "[JObj [(''date'', JStr ''2024-05-01''),
                      (''day'', JObj [(''avgtemp_f'', JNum 61), (''maxtemp_f'', JNum 70),
                                      (''mintemp_f'', JNum 52)])],
                JObj [(''date'', JStr ''2024-05-02''),
                      (''day'', JObj [(''avgtemp_f'', JNum 63), (''maxtemp_f'', JNum 72),
                                      (''mintemp_f'', JNum 54)])]]"
  have w: "\<forall>d \<in> set ?days. \<not> nullish d \<and> \<not> nullish (field d ''day'')"
    by (simp add: field_def)
  from C6_chart_projection [OF w] obtain cd a m n where
    "chartData (JArr ?days) = Inr cd"
    "own_field cd ''labels'' = Some (JArr (map (\<lambda>d. field d ''date'') ?days))"
    "own_field cd ''datasets'' = Some (JArr [a, m, n])"
    "own_field a ''data'' = Some (JArr (map (\<lambda>d. field (field d ''day'') ''avgtemp_f'') ?days))"
    "own_field m ''data'' = Some (JArr (map (\<lambda>d. field (field d ''day'') ''maxtemp_f'') ?days))"
    "own_field n ''data'' = Some (JArr (map (\<lambda>d. field (field d ''day'') ''mintemp_f'') ?days))"
    by blast
  then have
    "chartData (JArr ?days) = Inr cd \<and>
     own_field cd ''labels'' = Some (JArr [JStr ''2024-05-01'', JStr ''2024-05-02'']) \<and>
     own_field cd ''datasets'' = Some (JArr [a, m, n]) \<and>
     own_field a ''data'' = Some (JArr [JNum 61, JNum 63]) \<and>
     own_field m ''data'' = Some (JArr [JNum 70, JNum 72]) \<and>
     own_field n ''data'' = Some (JArr [JNum 52, JNum 54])"
    by (simp add: field_def)
  then show ?thesis by blast
qed

text \<open>
  C7 (as amended). Submitting the form with the draft value \<open>c\<close> sets the selected city
  to \<open>c\<close> (and suppresses the browser's default submission); it triggers exactly one
  call of \<^verbatim>\<open>fetchWeatherData\<close>, for \<open>c\<close>, when \<open>c\<close> differs from the city selected
  before, and none when it is the same.
\<close>

theorem C7_submit:
  "city (fst (submit API_KEY result e st)) = inputCity st \<and>
   snd (submit API_KEY result e st) = (if inputCity st = city st then [] else [inputCity st]) \<and>
   defaultPrevented (fst (handleSubmit e st))"
  by (simp add: submit_def handleSubmit_def useEffect_def deps_changed_def city_run_fetch)

theorem C7_submit_witness:
  "city (fst (submit (Some ''K'') Pending \<lparr>defaultPrevented = False\<rparr>
                (onChange ''Paris'' init_state))) = ''Paris'' \<and>
   snd (submit (Some ''K'') Pending \<lparr>defaultPrevented = False\<rparr>
          (onChange ''Paris'' init_state)) = [''Paris'']"
  using C7_submit [of "Some ''K''" Pending "\<lparr>defaultPrevented = False\<rparr>"
                      "onChange ''Paris'' init_state"]
  by (simp add: onChange_def init_state_def)

text \<open>
  Submitting the city that is already selected leaves the dependencies of the hook
  unchanged, so no fetch is made.
\<close>

theorem C7_submit_counterexample:
  "snd (submit (Some ''K'') (Resolved (JObj [])) \<lparr>defaultPrevented = False\<rparr> init_state) = [] \<and>
   inputCity init_state = ''London'' \<and>
   city (fst (submit (Some ''K'') (Resolved (JObj [])) \<lparr>defaultPrevented = False\<rparr> init_state)) =
     ''London''"
  by (simp add: submit_def handleSubmit_def useEffect_def deps_changed_def init_state_def)



text \<open>
  C9. The claim is that the city goes URL-encoded into the \<^verbatim>\<open>q\<close> parameter of a single
  GET that requests 7 days. The code interpolates it raw (line 53), against its own
  comment "We are requesting 7 days of forecast" (line 52): for the city \<^verbatim>\<open>a&b#c\<close> the
  one request made has the URL below, of which the part that is sent ends before the
  \<^verbatim>\<open>#\<close>; its \<^verbatim>\<open>q\<close> parameter is \<^verbatim>\<open>a\<close> and it has no \<^verbatim>\<open>days\<close> parameter. The
  encoded URL would have carried both.
\<close>

theorem C9_request_url_raw:
  "filter is_request (fst (fetchWeatherData (Some ''K'') Pending ''a&b#c'')) =
     [AxiosGet ''https://api.weatherapi.com/v1/forecast.json?key=K&q=a&b#c&days=7''] \<and>
   without_fragment (URL (Some ''K'') ''a&b#c'') =
     ''https://api.weatherapi.com/v1/forecast.json?key=K&q=a&b'' \<and>
   query_params (URL (Some ''K'') ''a&b#c'') = [(''key'', ''K''), (''q'', ''a''), (''b'', [])] \<and>
   map_of (query_params (URL (Some ''K'') ''a&b#c'')) ''days'' = None \<and>
   spec_URL (Some ''K'') ''a&b#c'' =
     ''https://api.weatherapi.com/v1/forecast.json?key=K&q=a%26b%23c&days=7'' \<and>
   query_params (spec_URL (Some ''K'') ''a&b#c'') =
     [(''key'', ''K''), (''q'', ''a%26b%23c''), (''days'', ''7'')]"
  by (simp add: fetchWeatherData_def env_val_def URL_def env_text_def spec_URL_def
                spec_encode_city_def percent_encode_def unreserved_def hex_digit_def
                without_fragment_def query_params_def)

text \<open>
  C10 (as amended). For every resolved request whose body is \<^verbatim>\<open>null\<close> or \<^verbatim>\<open>undefined\<close>,
  or has no \<^verbatim>\<open>forecast\<close> (the member is absent or \<^verbatim>\<open>null\<close>), the property read throws,
  the exception is caught, the error state is its message text, and the current
  conditions, though assigned from \<^verbatim>\<open>data.current\<close> before the throw in the second case,
  end up \<^verbatim>\<open>null\<close> and the forecast the empty array.
\<close>

theorem C10_unreadable_body:
  assumes k: "truthy (env_val API_KEY)"
    and d: "get response ''data'' = Inr data"
    and f: "nullish data \<or> nullish (field data ''forecast'')"
  shows "snd (fetchWeatherData API_KEY (Resolved response) selectedCity) = Returned \<and>
         error (run_fetch API_KEY (Resolved response) selectedCity st) =
           JStr (if nullish data then cannot_read data ''current''
                 else cannot_read (field data ''forecast'') ''forecastday'') \<and>
         currentWeatherData (run_fetch API_KEY (Resolved response) selectedCity st) = JNull \<and>
         forecastData (run_fetch API_KEY (Resolved response) selectedCity st) = JArr [] \<and>
         (if nullish data then [] else [SetCurrentWeatherData (field data ''current'')]) =
           fst (try_body response)"
proof (cases "nullish data")
  case True
  have tb: "try_body response = ([], Some (TypeError (cannot_read data ''current'')))"
    by (simp add: try_body_def d get_nullish [OF True])
  show ?thesis
    using k True
    by (simp add: run_fetch_def fetchWeatherData_def tb catch_block_TypeError
                  cannot_read_nonempty)
next
  case False
  with f have n: "nullish (field data ''forecast'')" by simp
  have c: "get data ''current'' = Inr (field data ''current'')"
    using False by (simp add: get_field)
  have g: "get data ''forecast'' = Inr (field data ''forecast'')"
    using False by (simp add: get_field)
  have tb: "try_body response =
      ([SetCurrentWeatherData (field data ''current'')],
       Some (TypeError (cannot_read (field data ''forecast'') ''forecastday'')))"
    by (simp add: try_body_def d c g get_nullish [OF n])
  show ?thesis
    using k False
    by (simp add: run_fetch_def fetchWeatherData_def tb catch_block_TypeError
                  cannot_read_nonempty)
qed

theorem C10_unreadable_body_witness:
  "truthy (env_val (Some ''K'')) \<and>
   get (JObj [(''status'', JNum 200),
              (''data'', JObj [(''current'', JObj [(''temp_f'', JNum 70)])])]) ''data'' =
     Inr (JObj [(''current'', JObj [(''temp_f'', JNum 70)])]) \<and>
   nullish (field (JObj [(''current'', JObj [(''temp_f'', JNum 70)])]) ''forecast'') \<and>
   fetchWeatherData (Some ''K'')
     (Resolved (JObj [(''status'', JNum 200),
                      (''data'', JObj [(''current'', JObj [(''temp_f'', JNum 70)])])]))
     ''Paris'' =
     ([SetError JNull, SetCurrentWeatherData JNull, SetForecastData (JArr []),
       AxiosGet ''https://api.weatherapi.com/v1/forecast.json?key=K&q=Paris&days=7'',
       SetCurrentWeatherData (JObj [(''temp_f'', JNum 70)]),
       SetError (JStr (cannot_read JUndefined ''forecastday'')),
       SetCurrentWeatherData JNull, SetForecastData (JArr [])], Returned) \<and>
   error (run_fetch (Some ''K'')
     (Resolved (JObj [(''status'', JNum 200),
                      (''data'', JObj [(''current'', JObj [(''temp_f'', JNum 70)])])]))
     ''Paris'' init_state) = JStr (cannot_read JUndefined ''forecastday'') \<and>
   currentWeatherData (run_fetch (Some ''K'')
     (Resolved (JObj [(''status'', JNum 200),
                      (''data'', JObj [(''current'', JObj [(''temp_f'', JNum 70)])])]))
     ''Paris'' init_state) = JNull"
proof -
  let ?data = "JObj [(''current'', JObj [(''temp_f'', JNum 70)])]"
  let ?resp = "JObj [(''status'', JNum 200), (''data'', ?data)]"
  have k: "truthy (env_val (Some ''K''))" by (simp add: env_val_def)
  have d: "get ?resp ''data'' = Inr ?data" by simp
  have f: "nullish (field ?data ''forecast'')" by (simp add: field_def)
  have u: "field ?data ''forecast'' = JUndefined" by (simp add: field_def)
  have t: "fetchWeatherData (Some ''K'') (Resolved ?resp) ''Paris'' =
     ([SetError JNull, SetCurrentWeatherData JNull, SetForecastData (JArr []),
       AxiosGet ''https://api.weatherapi.com/v1/forecast.json?key=K&q=Paris&days=7'',
       SetCurrentWeatherData (JObj [(''temp_f'', JNum 70)]),
       SetError (JStr (cannot_read JUndefined ''forecastday'')),
       SetCurrentWeatherData JNull, SetForecastData (JArr [])], Returned)"
    by (simp add: fetchWeatherData_def env_val_def try_body_def URL_def env_text_def
                  catch_block_TypeError cannot_read_nonempty)
  from C10_unreadable_body [OF k d disjI2 [OF f], of "''Paris''" init_state]
  have "error (run_fetch (Some ''K'') (Resolved ?resp) ''Paris'' init_state) =
          JStr (cannot_read JUndefined ''forecastday'') \<and>
        currentWeatherData (run_fetch (Some ''K'') (Resolved ?resp) ''Paris'' init_state) = JNull"
    by (simp add: u)
  with k d f t show ?thesis by blast
qed

text \<open>
  A body whose \<^verbatim>\<open>forecast\<close> is present but has no \<^verbatim>\<open>forecastday\<close> throws nothing: the
  current conditions stay populated, the forecast becomes \<^verbatim>\<open>undefined\<close>, and no error
  is set.
\<close>

theorem C10_malformed_body_counterexample:
  "fetchWeatherData (Some ''K'')
     (Resolved (JObj [(''data'', JObj [(''current'', JObj [(''temp_f'', JNum 70)]),
                                       (''forecast'', JObj [])])])) ''Paris'' =
     ([SetError JNull, SetCurrentWeatherData JNull, SetForecastData (JArr []),
       AxiosGet ''https://api.weatherapi.com/v1/forecast.json?key=K&q=Paris&days=7'',
       SetCurrentWeatherData (JObj [(''temp_f'', JNum 70)]),
       SetForecastData JUndefined], Returned) \<and>
   error (run_fetch (Some ''K'')
     (Resolved (JObj [(''data'', JObj [(''current'', JObj [(''temp_f'', JNum 70)]),
                                       (''forecast'', JObj [])])])) ''Paris'' init_state) = JNull \<and>
   currentWeatherData (run_fetch (Some ''K'')
     (Resolved (JObj [(''data'', JObj [(''current'', JObj [(''temp_f'', JNum 70)]),
                                       (''forecast'', JObj [])])])) ''Paris'' init_state) =
     JObj [(''temp_f'', JNum 70)] \<and>
   forecastData (run_fetch (Some ''K'')
     (Resolved (JObj [(''data'', JObj [(''current'', JObj [(''temp_f'', JNum 70)]),
                                       (''forecast'', JObj [])])])) ''Paris'' init_state) =
     JUndefined"
  by (simp add: fetchWeatherData_def run_fetch_def env_val_def try_body_def URL_def
                env_text_def)

end
